theory Spec2Isabelle
  imports Main "HOL-Library.Word"
begin

section \<open>Python values, errors and the file store\<close>

text \<open>
  The exceptions the script can raise. \<open>OpenError\<close> stands for the failure of
  \<open>gdal.Open\<close> on a path that holds no raster, \<open>FileNotFoundError\<close> for
  \<open>np.fromfile\<close> on a missing file.
\<close>

datatype error =
    KeyError string
  | ValueError
  | IndexError
  | TypeError
  | NotImplementedError
  | OpenError
  | FileNotFoundError

text \<open>The values that are stored in the option dictionary: paths are \<open>str\<close>, looks,
  sizes and counts are \<open>int\<close> (unbounded).\<close>

datatype pyval = PStr string | PInt int

subsection \<open>\<open>str(int)\<close>\<close>

definition digit_char :: "nat \<Rightarrow> char" where
  "digit_char d = char_of (48 + d)"

function show_nat :: "nat \<Rightarrow> string" where
  "show_nat n = (if n < 10 then [digit_char n] else show_nat (n div 10) @ [digit_char (n mod 10)])"
  by pat_completeness auto
termination
  by (relation "measure id") auto

declare show_nat.simps [simp del]

definition show_int :: "int \<Rightarrow> string" where
  "show_int i = (if i < 0 then CHR ''-'' # show_nat (nat (- i)) else show_nat (nat i))"

fun py_str :: "pyval \<Rightarrow> string" where
  "py_str (PStr s) = s"
| "py_str (PInt i) = show_int i"

subsection \<open>\<open>str.format(**options)\<close>\<close>

text \<open>
  \<open>str.format\<close> reads the template from left to right. \<open>{{\<close> and \<open>}}\<close> are escaped
  braces, \<open>{name}\<close> is replaced by \<open>str(options[name])\<close> (a missing name raises
  \<open>KeyError\<close>), a brace that is neither is a \<open>ValueError\<close>. The text of a replacement
  is not read again. The field name is taken as the text up to the closing brace: the
  templates of this script only use plain names, without conversion (\<open>!r\<close>), format
  specification (\<open>:spec\<close>), attribute or index, and no empty or numeric name, which
  would refer to a positional argument.
\<close>

fun take_field :: "string \<Rightarrow> (string \<times> string) option" where
  "take_field [] = None"
| "take_field (c # cs) =
     (if c = CHR ''}'' then Some ([], cs)
      else (case take_field cs of
              None \<Rightarrow> None
            | Some p \<Rightarrow> Some (c # fst p, snd p)))"

fun put :: "string \<Rightarrow> error + string \<Rightarrow> error + string" where
  "put s (Inl e) = Inl e"
| "put s (Inr t) = Inr (s @ t)"

function py_format :: "string \<Rightarrow> (string \<rightharpoonup> pyval) \<Rightarrow> error + string" where
  "py_format [] opts = Inr []"
| "py_format (c # cs) opts =
     (if c = CHR ''{'' then
        (case cs of
           [] \<Rightarrow> Inl ValueError
         | d # ds \<Rightarrow>
             if d = CHR ''{'' then put ''{'' (py_format ds opts)
             else (case take_field cs of
                     None \<Rightarrow> Inl ValueError
                   | Some p \<Rightarrow>
                       (case opts (fst p) of
                          None \<Rightarrow> Inl (KeyError (fst p))
                        | Some v \<Rightarrow> put (py_str v) (py_format (snd p) opts))))
      else if c = CHR ''}'' then
        (case cs of
           [] \<Rightarrow> Inl ValueError
         | d # ds \<Rightarrow> if d = CHR ''}'' then put ''}'' (py_format ds opts) else Inl ValueError)
      else put [c] (py_format cs opts))"
  by pat_completeness auto
termination
proof (relation "measure (\<lambda>(t, opts). length t)")
  have take_field_shorter: "take_field cs = Some p \<Longrightarrow> length (snd p) < length cs" for cs p
    by (induction cs arbitrary: p) (auto split: if_splits option.splits)
  fix c :: char and cs :: string and d ds p and opts :: "string \<rightharpoonup> pyval" and v
  assume "cs = d # ds" and "take_field cs = Some p"
  then show "((snd p, opts), c # cs, opts) \<in> measure (\<lambda>(t, opts). length t)"
    using take_field_shorter [of cs p] by simp
qed auto

subsection \<open>The templates\<close>

text \<open>A triple-quoted literal, line by line: the lines are joined by the newline
  character, so a literal that opens with a line break has the empty first line, and the
  last line is the indentation before the closing quotes.\<close>

fun join_lines :: "string list \<Rightarrow> string" where
  "join_lines [] = []"
| "join_lines [l] = l"
| "join_lines (l # ls) = l @ CHR 0x0A # join_lines ls"

definition base_template :: string where
  "base_template = join_lines
    ['''',
     ''    ######################'',
     ''    # Base Configuration #'',
     ''    ######################'',
     '''',
     ''    # Input file name'',
     ''    INFILE  {infile}'',
     ''    INFILEFORMAT    {informat}'',
     '''',
     ''    # Input file line length'',
     ''    LINELENGTH  {width}'',
     ''    NLOOKSRANGE {looks_range}'',
     ''    NLOOKSAZ    {looks_az}'',
     '''',
     ''    # Output file'',
     ''    OUTFILE {outfile}'',
     ''    OUTFILEFORMAT   {outformat}'',
     '''',
     ''    # Correlation file'',
     ''    CORRFILE    {corfile}'',
     ''    CORRFILEFORMAT  FLOAT_DATA'',
     '''',
     ''    # Unwrapping Controls'',
     ''    STATCOSTMODE    DEFO'',
     ''    DEFOMAX_CYCLE   4.0'',
     ''    INITMETHOD  MCF'',
     ''    MAXNCOMPS   32'',
     '''',
     ''    '']"

definition tile_template :: string where
  "tile_template = join_lines
    ['''',
     ''    ################'',
     ''    # Tile control #'',
     ''    ################'',
     '''',
     ''    # Parameters in this section describe how the input files will be'',
     ''    # tiled.  This is mainly used for tiling, in which different'',
     ''    # patches of the interferogram are unwrapped separately.'',
     '''',
     ''    # Number of rows and columns of tiles into which the data files are'',
     ''    # to be broken up.'',
     ''    NTILEROW    {ntilerow}'',
     ''    NTILECOL    {ntilecol}'',
     '''',
     ''    # Overlap, in pixels, between neighboring tiles.'',
     ''    # Using the same overlap for rows and cols here, but they can be different in general'',
     ''    ROWOVRLP    {overlap}'',
     ''    COLOVRLP    {overlap}'',
     '''',
     ''    # Maximum number of child processes to start for parallel tile'',
     ''    # unwrapping.'',
     ''    NPROC   {nproc}'',
     '''',
     ''    '']"

definition mask_template :: string where
  "mask_template = join_lines
    ['''',
     ''    ###########'',
     ''    # Masking #'',
     ''    ###########'',
     '''',
     ''    # Input file of signed binary byte (signed char) values.  Values in'',
     ''    # the file should be either 0 or 1, with 0 denoting interferogram'',
     ''    # pixels that should be masked out and 1 denoting valid pixels.  The'',
     ''    # array should have the same dimensions as the input wrapped phase'',
     ''    # array.'',
     ''    BYTEMASKFILE    {mask}'',
     '''',
     ''    '']"

definition unwrap_template :: string where
  "unwrap_template = join_lines
    ['''',
     ''    UNWRAPPED_IN    TRUE'',
     ''    UNWRAPPEDINFILEFORMAT   FLOAT_DATA'',
     '''',
     ''    '']"

subsection \<open>\<open>write_snaphu_config\<close>\<close>

text \<open>The arguments, with the types the driver passes: paths are strings, looks and
  sizes are integers, the shapes are tuples of integers, \<open>None\<close> is the default of
  \<open>tile_shape\<close> and \<open>in_mask\<close>.\<close>

record config_args =
  in_ifg :: string
  in_cor :: string
  looks_az :: int
  looks_range :: int
  shape :: "int list"
  out_conf :: string
  out_file :: string
  tile_shape :: "int list option"
  tile_overlap :: int
  in_mask :: "string option"
  unwrapped :: bool

text \<open>Truth value of an optional tuple or string in an \<open>if\<close>: \<open>None\<close> and the empty
  sequence are false.\<close>

fun truthy :: "'a list option \<Rightarrow> bool" where
  "truthy None = False"
| "truthy (Some xs) = (xs \<noteq> [])"

text \<open>\<open>t[i]\<close> on a tuple, for an index that is not negative.\<close>

definition subscript :: "'a list \<Rightarrow> nat \<Rightarrow> error + 'a" where
  "subscript xs i = (if i < length xs then Inr (xs ! i) else Inl IndexError)"

text \<open>\<open>ntilerow, ntilecol = tile_shape\<close>: any length but two raises \<open>ValueError\<close>.\<close>

fun unpack2 :: "'a list \<Rightarrow> error + ('a \<times> 'a)" where
  "unpack2 [a, b] = Inr (a, b)"
| "unpack2 _ = Inl ValueError"

text \<open>The text that \<open>write_snaphu_config\<close> writes: the statements of the function up
  to \<open>template.format(**options)\<close>, in their order.\<close>

definition config_text :: "config_args \<Rightarrow> error + string" where
  "config_text a =
    (let in_format = ''FLOAT_DATA'' in
     case subscript (shape a) 1 of
       Inl e \<Rightarrow> Inl e
     | Inr width \<Rightarrow>
        (let options =
               [''infile'' \<mapsto> PStr (in_ifg a),
                ''informat'' \<mapsto> PStr in_format,
                ''corfile'' \<mapsto> PStr (in_cor a),
                ''looks_az'' \<mapsto> PInt (looks_az a),
                ''looks_range'' \<mapsto> PInt (looks_range a),
                ''width'' \<mapsto> PInt width,
                ''outfile'' \<mapsto> PStr (out_file a),
                ''outformat'' \<mapsto> PStr ''FLOAT_DATA''];
             template = base_template
         in case (if truthy (tile_shape a)
                  then (case unpack2 (the (tile_shape a)) of
                          Inl e \<Rightarrow> Inl e
                        | Inr (ntilerow, ntilecol) \<Rightarrow>
                            (let nproc = ntilerow * ntilecol
                             in Inr (template @ tile_template,
                                     options(''ntilerow'' \<mapsto> PInt ntilerow,
                                             ''ntilecol'' \<mapsto> PInt ntilecol,
                                             ''overlap'' \<mapsto> PInt (tile_overlap a),
                                             ''nproc'' \<mapsto> PInt nproc))))
                  else Inr (template, options)) of
              Inl e \<Rightarrow> Inl e
            | Inr (template, options) \<Rightarrow>
               (let (template, options) =
                      (if truthy (in_mask a)
                       then (template @ mask_template,
                             options(''mask'' \<mapsto> PStr (the (in_mask a))))
                       else (template, options));
                    template = (if unwrapped a then template @ unwrap_template else template)
                in py_format template options)))"

section \<open>Rasters, arrays and flat binary files\<close>

text \<open>
  An array element is kept as its bytes in memory order, so that \<open>tofile\<close> and
  \<open>fromfile\<close> are what they are in numpy: a copy of the buffer, with no header.
  The values of type \<open>double\<close> that GDAL hands to Python (the nodata value, the
  coefficients of the geotransform) are of a type \<open>'r\<close> that is left open.
\<close>

type_synonym byte = "8 word"
type_synonym elem = "byte list"

text \<open>The pixel types of GDAL; the script names \<open>GDT_Float32\<close>, \<open>GDT_Byte\<close> and
  \<open>GDT_CFloat32\<close>.\<close>

datatype gdal_dtype =
    GDT_Unknown | GDT_Byte | GDT_UInt16 | GDT_Int16 | GDT_UInt32 | GDT_Int32
  | GDT_Float32 | GDT_Float64 | GDT_CInt16 | GDT_CInt32 | GDT_CFloat32 | GDT_CFloat64
  | GDT_UInt64 | GDT_Int64 | GDT_Int8

text \<open>The two values of \<open>py_dtype\<close>: \<open>np.float32\<close> and \<open>np.byte\<close> (signed, 8 bits).\<close>

datatype np_dtype = np_float32 | np_byte

fun itemsize :: "np_dtype \<Rightarrow> nat" where
  "itemsize np_float32 = 4"
| "itemsize np_byte = 1"

record 'a ndarray =
  dims :: "nat \<times> nat"
  items :: "'a list"

text \<open>A raster dataset: the fields the script reads, and the pixels of band 1 in
  row-major order.\<close>

record 'r raster =
  RasterXSize :: nat
  RasterYSize :: nat
  DataType :: gdal_dtype
  NoDataValue :: "'r option"
  GeoTransform :: "'r list"
  Projection :: string
  band1 :: "elem list"

text \<open>The files of the three kinds the script handles, by path: rasters, flat binary
  files and text files, each kind with its own paths.\<close>

record 'r fs =
  rasters :: "string \<rightharpoonup> 'r raster"
  binaries :: "string \<rightharpoonup> byte list"
  texts :: "string \<rightharpoonup> string"

text \<open>
  What numpy and GDAL compute on values, which is not code of this script, is a
  parameter of the model:
  \<^item> \<open>read_as src dst\<close>: the conversion of one pixel by \<open>ReadAsArray\<close> from the type
    \<open>src\<close> of the band to a different buffer type \<open>dst\<close>;
  \<^item> \<open>np_angle\<close>: \<open>np.angle\<close> on one \<open>complex64\<close> element, a \<open>float32\<close> element;
  \<^item> \<open>equals_zero t\<close>: the comparison \<open>== 0\<close> on one element of a band of type \<open>t\<close>;
  \<^item> \<open>coerce t\<close>: the conversion of the nodata value (or of \<open>None\<close>) to one element
    of an array of type \<open>t\<close>, in an assignment;
  \<^item> \<open>store_signed\<close>: what a band of type \<open>GDT_Byte\<close> keeps of one element of an
    array of signed bytes in \<open>WriteArray\<close>;
  \<^item> \<open>set_nodata\<close>: \<open>SetNoDataValue\<close> on the nodata value of the template (or on
    \<open>None\<close>), the value that the band then has.
\<close>

record 'r library =
  read_as :: "gdal_dtype \<Rightarrow> gdal_dtype \<Rightarrow> elem \<Rightarrow> elem"
  np_angle :: "elem \<Rightarrow> elem"
  equals_zero :: "gdal_dtype \<Rightarrow> elem \<Rightarrow> bool"
  coerce :: "np_dtype \<Rightarrow> 'r option \<Rightarrow> error + elem"
  store_signed :: "elem \<Rightarrow> elem"
  set_nodata :: "'r option \<Rightarrow> error + 'r option"

subsection \<open>The library calls\<close>

definition gdal_Open :: "'r fs \<Rightarrow> string \<Rightarrow> error + 'r raster" where
  "gdal_Open fs path = (case rasters fs path of None \<Rightarrow> Inl OpenError | Some ds \<Rightarrow> Inr ds)"

text \<open>\<open>ds.GetRasterBand(1).ReadAsArray(buf_type=t)\<close>: an array of shape (rows, columns);
  the pixels are copied when the buffer type is the type of the band or is not given.\<close>

definition ReadAsArray :: "'r library \<Rightarrow> gdal_dtype option \<Rightarrow> 'r raster \<Rightarrow> elem ndarray" where
  "ReadAsArray lib buf_type ds =
     \<lparr>dims = (RasterYSize ds, RasterXSize ds),
      items = (case buf_type of
                 None \<Rightarrow> band1 ds
               | Some t \<Rightarrow> if t = DataType ds then band1 ds
                           else map (read_as lib (DataType ds) t) (band1 ds))\<rparr>"

text \<open>\<open>arr.astype(py_dtype)\<close>. At each call the elements already have the width of
  \<open>py_dtype\<close>: \<open>float32\<close> to \<open>float32\<close>, and unsigned to signed bytes, which keeps the
  bits.\<close>

definition astype :: "np_dtype \<Rightarrow> elem ndarray \<Rightarrow> elem ndarray" where
  "astype py_dtype arr = arr"

definition tofile :: "elem ndarray \<Rightarrow> string \<Rightarrow> 'r fs \<Rightarrow> 'r fs" where
  "tofile arr path fs = fs\<lparr>binaries := (binaries fs)(path \<mapsto> concat (items arr))\<rparr>"

text \<open>The buffer cut into elements of \<open>n\<close> bytes; bytes after the last whole element
  are not read.\<close>

fun chunks :: "nat \<Rightarrow> byte list \<Rightarrow> elem list" where
  "chunks n bs = (if n = 0 \<or> length bs < n then [] else take n bs # chunks n (drop n bs))"

declare chunks.simps [simp del]

definition fromfile :: "'r fs \<Rightarrow> string \<Rightarrow> np_dtype \<Rightarrow> error + elem list" where
  "fromfile fs path py_dtype =
     (case binaries fs path of
        None \<Rightarrow> Inl FileNotFoundError
      | Some bs \<Rightarrow> Inr (chunks (itemsize py_dtype) bs))"

definition reshape :: "elem list \<Rightarrow> nat \<times> nat \<Rightarrow> error + elem ndarray" where
  "reshape flat shp =
     (if length flat = fst shp * snd shp then Inr \<lparr>dims = shp, items = flat\<rparr>
      else Inl ValueError)"

text \<open>\<open>mask == 0\<close>, element by element.\<close>

definition eq_zero :: "'r library \<Rightarrow> gdal_dtype \<Rightarrow> elem ndarray \<Rightarrow> bool ndarray" where
  "eq_zero lib t m = \<lparr>dims = dims m, items = map (equals_zero lib t) (items m)\<rparr>"

text \<open>\<open>arr[b] = value\<close> with an array \<open>b\<close> of booleans: the shapes must agree.\<close>

definition setitem :: "'r library \<Rightarrow> np_dtype \<Rightarrow> elem ndarray \<Rightarrow> bool ndarray \<Rightarrow> 'r option
    \<Rightarrow> error + elem ndarray" where
  "setitem lib py_dtype arr b val =
     (if dims b \<noteq> dims arr then Inl IndexError
      else (case coerce lib py_dtype val of
              Inl e \<Rightarrow> Inl e
            | Inr v \<Rightarrow> Inr (arr\<lparr>items := map (\<lambda>(f, x). if f then v else x)
                                              (zip (items b) (items arr))\<rparr>)))"

text \<open>\<open>WriteArray\<close> into a band of type \<open>t\<close>: an array of \<open>float32\<close> goes into a band
  of \<open>GDT_Float32\<close> as it is.\<close>

definition WriteArray :: "'r library \<Rightarrow> gdal_dtype \<Rightarrow> np_dtype \<Rightarrow> elem ndarray \<Rightarrow> elem list" where
  "WriteArray lib t py_dtype arr =
     (if py_dtype = np_byte then map (store_signed lib) (items arr) else items arr)"

subsection \<open>\<open>gdal_to_binary\<close>\<close>

definition gdal_to_binary ::
    "'r library \<Rightarrow> string \<Rightarrow> string \<Rightarrow> gdal_dtype \<Rightarrow> 'r fs \<Rightarrow> (error + unit) \<times> 'r fs" where
  "gdal_to_binary lib inpath outpath dtype fs =
     (case (if dtype = GDT_Float32 then Inr np_float32
            else if dtype = GDT_Byte then Inr np_byte
            else if dtype = GDT_CFloat32 then Inr np_float32
            else Inl NotImplementedError) of
        Inl e \<Rightarrow> (Inl e, fs)
      | Inr py_dtype \<Rightarrow>
         (case gdal_Open fs inpath of
            Inl e \<Rightarrow> (Inl e, fs)
          | Inr ds \<Rightarrow>
             (let arr = ReadAsArray lib (Some dtype) ds;
                  arr = (if dtype = GDT_CFloat32 then arr\<lparr>items := map (np_angle lib) (items arr)\<rparr>
                         else arr);
                  arr = astype py_dtype arr
              in (Inr (), tofile arr outpath fs))))"

subsection \<open>\<open>binary_to_gdal\<close>\<close>

text \<open>The template and the mask are read before the output is created, so the
  output path may be the path of either. \<open>driver.Create\<close> is taken to succeed; the
  output raster exists from then on, so an error of \<open>SetNoDataValue\<close> leaves it in
  the store without a nodata value.\<close>

definition binary_to_gdal ::
    "'r library \<Rightarrow> string \<Rightarrow> string \<Rightarrow> string \<Rightarrow> string \<Rightarrow> 'r fs \<Rightarrow> (error + unit) \<times> 'r fs" where
  "binary_to_gdal lib inpath templatepath maskpath outpath fs =
     (case gdal_Open fs templatepath of
        Inl e \<Rightarrow> (Inl e, fs)
      | Inr ds \<Rightarrow>
     (let nodata_value = NoDataValue ds;
          dtype = DataType ds;
          shp = (RasterYSize ds, RasterXSize ds)
      in case (if dtype = GDT_Float32 then Inr np_float32
               else if dtype = GDT_Byte then Inr np_byte
               else Inl NotImplementedError) of
        Inl e \<Rightarrow> (Inl e, fs)
      | Inr py_dtype \<Rightarrow>
     (case gdal_Open fs maskpath of
        Inl e \<Rightarrow> (Inl e, fs)
      | Inr mask_ds \<Rightarrow>
     (let mask_arr = ReadAsArray lib None mask_ds
      in case fromfile fs inpath py_dtype of
        Inl e \<Rightarrow> (Inl e, fs)
      | Inr flat \<Rightarrow>
     (case reshape flat shp of
        Inl e \<Rightarrow> (Inl e, fs)
      | Inr arr \<Rightarrow>
     (case setitem lib py_dtype arr (eq_zero lib (DataType mask_ds) mask_arr) nodata_value of
        Inl e \<Rightarrow> (Inl e, fs)
      | Inr arr \<Rightarrow>
     (let out_ds = \<lparr>RasterXSize = snd shp, RasterYSize = fst shp, DataType = dtype,
                    NoDataValue = None, GeoTransform = GeoTransform ds,
                    Projection = Projection ds,
                    band1 = WriteArray lib dtype py_dtype arr\<rparr>;
          fs = fs\<lparr>rasters := (rasters fs)(outpath \<mapsto> out_ds)\<rparr>
      in case set_nodata lib nodata_value of
        Inl e \<Rightarrow> (Inl e, fs)
      | Inr nd \<Rightarrow>
          (Inr (), fs\<lparr>rasters := (rasters fs)(outpath \<mapsto> out_ds\<lparr>NoDataValue := nd\<rparr>)\<rparr>))))))))"

subsection \<open>\<open>write_snaphu_config\<close>: the file and the result\<close>

text \<open>The text is written to \<open>out_conf\<close>, over what the file held, and the two paths are
  returned; an error before that leaves the store as it was. Opening the file for writing
  is taken to succeed.\<close>

definition write_snaphu_config ::
    "config_args \<Rightarrow> 'r fs \<Rightarrow> (error + string \<times> string) \<times> 'r fs" where
  "write_snaphu_config a fs =
     (case config_text a of
        Inl e \<Rightarrow> (Inl e, fs)
      | Inr template \<Rightarrow>
          (Inr (out_conf a, out_file a), fs\<lparr>texts := (texts fs)(out_conf a \<mapsto> template)\<rparr>))"

section \<open>The configuration file as the specification describes it\<close>

text \<open>
  The four sections of the specification, written out from its sections 4.3 and 6 and
  not computed from the templates: what each section carries, with the values of the
  call in the place of the variable ones. The lemmas \<open>format_base\<close>, \<open>format_tile\<close>,
  \<open>format_mask\<close> and \<open>format_unwrap\<close> below compare them with the templates of the
  script.
\<close>

definition base_section :: "string \<Rightarrow> int \<Rightarrow> int \<Rightarrow> int \<Rightarrow> string \<Rightarrow> string \<Rightarrow> string" where
  "base_section infile width n_range n_az outfile corfile = join_lines
    ['''',
     ''    ######################'',
     ''    # Base Configuration #'',
     ''    ######################'',
     '''',
     ''    # Input file name'',
     ''    INFILE  '' @ infile,
     ''    INFILEFORMAT    FLOAT_DATA'',
     '''',
     ''    # Input file line length'',
     ''    LINELENGTH  '' @ show_int width,
     ''    NLOOKSRANGE '' @ show_int n_range,
     ''    NLOOKSAZ    '' @ show_int n_az,
     '''',
     ''    # Output file'',
     ''    OUTFILE '' @ outfile,
     ''    OUTFILEFORMAT   FLOAT_DATA'',
     '''',
     ''    # Correlation file'',
     ''    CORRFILE    '' @ corfile,
     ''    CORRFILEFORMAT  FLOAT_DATA'',
     '''',
     ''    # Unwrapping Controls'',
     ''    STATCOSTMODE    DEFO'',
     ''    DEFOMAX_CYCLE   4.0'',
     ''    INITMETHOD  MCF'',
     ''    MAXNCOMPS   32'',
     '''',
     ''    '']"

definition tile_section :: "int \<Rightarrow> int \<Rightarrow> int \<Rightarrow> string" where
  "tile_section nrow ncol overlap = join_lines
    ['''',
     ''    ################'',
     ''    # Tile control #'',
     ''    ################'',
     '''',
     ''    # Parameters in this section describe how the input files will be'',
     ''    # tiled.  This is mainly used for tiling, in which different'',
     ''    # patches of the interferogram are unwrapped separately.'',
     '''',
     ''    # Number of rows and columns of tiles into which the data files are'',
     ''    # to be broken up.'',
     ''    NTILEROW    '' @ show_int nrow,
     ''    NTILECOL    '' @ show_int ncol,
     '''',
     ''    # Overlap, in pixels, between neighboring tiles.'',
     ''    # Using the same overlap for rows and cols here, but they can be different in general'',
     ''    ROWOVRLP    '' @ show_int overlap,
     ''    COLOVRLP    '' @ show_int overlap,
     '''',
     ''    # Maximum number of child processes to start for parallel tile'',
     ''    # unwrapping.'',
     ''    NPROC   '' @ show_int (nrow * ncol),
     '''',
     ''    '']"

definition mask_section :: "string \<Rightarrow> string" where
  "mask_section path = join_lines
    ['''',
     ''    ###########'',
     ''    # Masking #'',
     ''    ###########'',
     '''',
     ''    # Input file of signed binary byte (signed char) values.  Values in'',
     ''    # the file should be either 0 or 1, with 0 denoting interferogram'',
     ''    # pixels that should be masked out and 1 denoting valid pixels.  The'',
     ''    # array should have the same dimensions as the input wrapped phase'',
     ''    # array.'',
     ''    BYTEMASKFILE    '' @ path,
     '''',
     ''    '']"

definition unwrap_section :: string where
  "unwrap_section = join_lines
    ['''',
     ''    UNWRAPPED_IN    TRUE'',
     ''    UNWRAPPEDINFILEFORMAT   FLOAT_DATA'',
     '''',
     ''    '']"

text \<open>
  The reading of a configuration text as directives: one directive per line, a keyword
  and a value separated by blanks; empty lines and lines that start with \<open>#\<close> carry none.
\<close>

definition is_blank :: "char \<Rightarrow> bool" where
  "is_blank c \<longleftrightarrow> c = CHR '' '' \<or> c = CHR 0x09"

fun split_on :: "(char \<Rightarrow> bool) \<Rightarrow> string \<Rightarrow> string list" where
  "split_on p [] = [[]]"
| "split_on p (c # cs) =
     (if p c then [] # split_on p cs
      else (case split_on p cs of [] \<Rightarrow> [[c]] | l # ls \<Rightarrow> (c # l) # ls))"

definition split_lines :: "string \<Rightarrow> string list" where
  "split_lines = split_on (\<lambda>c. c = CHR 0x0A)"

definition tokens :: "string \<Rightarrow> string list" where
  "tokens l = filter (\<lambda>w. w \<noteq> []) (split_on is_blank l)"

definition directive :: "string \<Rightarrow> (string \<times> string) option" where
  "directive l =
     (case tokens l of
        [] \<Rightarrow> None
      | k # vs \<Rightarrow> if hd k = CHR ''#'' then None
                  else Some (k, case vs of [] \<Rightarrow> [] | v # _ \<Rightarrow> v))"

definition directives :: "string \<Rightarrow> (string \<times> string) list" where
  "directives txt = List.map_filter directive (split_lines txt)"

text \<open>A string that is one token of such a line: not empty, without blank or line
  break.\<close>

definition word :: "string \<Rightarrow> bool" where
  "word s \<longleftrightarrow> s \<noteq> [] \<and> list_all (\<lambda>c. \<not> is_blank c \<and> c \<noteq> CHR 0x0A) s"

section \<open>Masked assignment, element by element\<close>

text \<open>The elements \<open>xs\<close> with \<open>v\<close> in the place of each one whose mask element \<open>ms\<close>
  compares equal to zero.\<close>

definition masked :: "'r library \<Rightarrow> gdal_dtype \<Rightarrow> elem list \<Rightarrow> elem \<Rightarrow> elem list \<Rightarrow> elem list" where
  "masked lib t ms v xs =
     map (\<lambda>(f, x). if f then v else x) (zip (map (equals_zero lib t) ms) xs)"

section \<open>Example data\<close>

text \<open>An instance of the library parameters, with integers for the values of type
  \<open>double\<close>: conversions keep the bytes, zero is the element of zero bytes, \<open>None\<close> is
  refused where a number is expected.\<close>

definition example_library :: "int library" where
  "example_library =
     \<lparr>read_as = (\<lambda>src dst e. e),
      np_angle = (\<lambda>e. take 4 e),
      equals_zero = (\<lambda>t e. list_all (\<lambda>b. b = 0) e),
      coerce = (\<lambda>py nd. case nd of
                   None \<Rightarrow> Inl TypeError
                 | Some x \<Rightarrow> Inr (replicate (itemsize py) (word_of_int x))),
      store_signed = (\<lambda>e. e),
      set_nodata = (\<lambda>nd. case nd of None \<Rightarrow> Inl TypeError | Some x \<Rightarrow> Inr (Some x))\<rparr>"

text \<open>A raster of one row and two columns of \<open>float32\<close> pixels with the nodata value
  9, two masks of bytes for it, and a flat file of two \<open>float32\<close> elements.\<close>

definition example_template :: "int raster" where
  "example_template =
     \<lparr>RasterXSize = 2, RasterYSize = 1, DataType = GDT_Float32, NoDataValue = Some 9,
      GeoTransform = [0, 1, 0, 0, 0, 1], Projection = ''EPSG:4326'',
      band1 = [[1, 2, 3, 4], [5, 6, 7, 8]]\<rparr>"

definition example_mask :: "elem list \<Rightarrow> int raster" where
  "example_mask px =
     \<lparr>RasterXSize = 2, RasterYSize = 1, DataType = GDT_Byte, NoDataValue = None,
      GeoTransform = [0, 1, 0, 0, 0, 1], Projection = ''EPSG:4326'', band1 = px\<rparr>"

text \<open>A raster of one row and two columns of bytes, one of them above 127, with the
  nodata value 0.\<close>

definition example_bytes :: "int raster" where
  "example_bytes =
     \<lparr>RasterXSize = 2, RasterYSize = 1, DataType = GDT_Byte, NoDataValue = Some 0,
      GeoTransform = [0, 1, 0, 0, 0, 1], Projection = ''EPSG:4326'',
      band1 = [[200], [1]]\<rparr>"

definition example_fs :: "int fs" where
  "example_fs =
     \<lparr>rasters = [''template.tif'' \<mapsto> example_template,
                 ''bytes.tif'' \<mapsto> example_bytes,
                 ''mask.tif'' \<mapsto> example_mask [[0], [1]],
                 ''valid.tif'' \<mapsto> example_mask [[1], [1]]],
      binaries = [''in.bin'' \<mapsto> [10, 11, 12, 13, 20, 21, 22, 23]],
      texts = Map.empty\<rparr>"


text \<open>The arguments of the call in the driver, for a raster of 1500 lines of 2000
  pixels, and a store without files.\<close>

definition example_args :: config_args where
  "example_args =
     \<lparr>in_ifg = ''bursts_unwrapped.bin'', in_cor = ''bursts_correlation.bin'',
      looks_az = 4, looks_range = 20, shape = [1500, 2000],
      out_conf = ''snaphu.conf'', out_file = ''bursts_reunwrapped.bin'',
      tile_shape = None, tile_overlap = 600, in_mask = Some ''bursts_mask.bin'',
      unwrapped = True\<rparr>"

definition empty_fs :: "int fs" where
  "empty_fs = \<lparr>rasters = Map.empty, binaries = Map.empty, texts = Map.empty\<rparr>"

section \<open>Formatting: the templates give the sections\<close>

lemma put_put: "put s (put t r) = put (s @ t) r"
  by (cases r) auto

lemma put_Inr_iff: "put s r = Inr t \<longleftrightarrow> (\<exists>u. r = Inr u \<and> t = s @ u)"
  by (cases r) auto

lemma take_field_append:
  "take_field cs = Some p \<Longrightarrow> take_field (cs @ t) = Some (fst p, snd p @ t)"
  by (induction cs arbitrary: p) (auto split: if_splits option.splits)

lemma py_format_append:
  "py_format t1 opts = Inr s1 \<Longrightarrow> py_format (t1 @ t2) opts = put s1 (py_format t2 opts)"
proof (induction t1 opts arbitrary: s1 rule: py_format.induct)
  case (1 opts)
  then show ?case by (cases "py_format t2 opts") auto
next
  case (2 c cs opts)
  show ?case
  proof (cases "c = CHR ''{''")
    case open_brace: True
    show ?thesis
    proof (cases cs)
      case Nil
      with open_brace "2.prems" show ?thesis by simp
    next
      case (Cons d ds)
      show ?thesis
      proof (cases "d = CHR ''{''")
        case True
        with open_brace Cons "2.prems" obtain u where u: "py_format ds opts = Inr u" "s1 = ''{'' @ u"
          by (auto simp: put_Inr_iff)
        from "2.IH"(1) [OF open_brace Cons True u(1)] open_brace Cons True u
        show ?thesis by (simp add: put_put)
      next
        case False
        with open_brace Cons "2.prems" obtain p v u where
          p: "take_field cs = Some p" and v: "opts (fst p) = Some v"
          and u: "py_format (snd p) opts = Inr u" and s1: "s1 = py_str v @ u"
          by (auto simp: put_Inr_iff split: option.splits)
        from "2.IH"(2) [OF open_brace Cons False p v u]
        have "py_format (snd p @ t2) opts = put u (py_format t2 opts)" .
        with open_brace Cons False p v s1 take_field_append [OF p, of t2]
        show ?thesis by (simp add: put_put)
      qed
    qed
  next
    case not_open: False
    show ?thesis
    proof (cases "c = CHR ''}''")
      case True
      with not_open "2.prems" obtain ds u where
        cs: "cs = CHR ''}'' # ds" and u: "py_format ds opts = Inr u" and s1: "s1 = ''}'' @ u"
        by (auto simp: put_Inr_iff split: list.splits if_splits)
      from "2.IH"(3) [OF not_open True cs _ u] cs True not_open s1
      show ?thesis by (simp add: put_put)
    next
      case False
      with not_open "2.prems" obtain u where u: "py_format cs opts = Inr u" and s1: "s1 = [c] @ u"
        by (auto simp: put_Inr_iff)
      from "2.IH"(4) [OF not_open False u] not_open False s1
      show ?thesis by (simp add: put_put)
    qed
  qed
qed

lemma format_base:
  assumes "opts ''infile'' = Some (PStr i)" "opts ''informat'' = Some (PStr ''FLOAT_DATA'')"
    "opts ''width'' = Some (PInt w)" "opts ''looks_range'' = Some (PInt lr)"
    "opts ''looks_az'' = Some (PInt la)" "opts ''outfile'' = Some (PStr out)"
    "opts ''outformat'' = Some (PStr ''FLOAT_DATA'')" "opts ''corfile'' = Some (PStr cor)"
  shows "py_format base_template opts = Inr (base_section i w lr la out cor)"
  by (simp add: base_template_def base_section_def assms)

lemma format_tile:
  assumes "opts ''ntilerow'' = Some (PInt r)" "opts ''ntilecol'' = Some (PInt c)"
    "opts ''overlap'' = Some (PInt ov)" "opts ''nproc'' = Some (PInt (r * c))"
  shows "py_format tile_template opts = Inr (tile_section r c ov)"
  by (simp add: tile_template_def tile_section_def assms)

lemma format_mask:
  assumes "opts ''mask'' = Some (PStr m)"
  shows "py_format mask_template opts = Inr (mask_section m)"
  by (simp add: mask_template_def mask_section_def assms)

lemma format_unwrap: "py_format unwrap_template opts = Inr unwrap_section"
  by (simp add: unwrap_template_def unwrap_section_def)

lemmas format_base_append = py_format_append [OF format_base]
lemmas format_tile_append = py_format_append [OF format_tile]
lemmas format_mask_append = py_format_append [OF format_mask]
lemmas format_unwrap_append = py_format_append [OF format_unwrap]

section \<open>The directives of the sections\<close>

lemma split_on_none: "\<forall>c \<in> set v. \<not> p c \<Longrightarrow> split_on p v = [v]"
  by (induction v) auto

lemma split_on_sep:
  "\<forall>c \<in> set v. \<not> p c \<Longrightarrow> p c \<Longrightarrow> split_on p (v @ c # rest) = v # split_on p rest"
  by (induction v) auto

lemma word_lines [simp]: "word v \<Longrightarrow> split_on (\<lambda>c. c = CHR 0x0A) (v @ CHR 0x0A # rest) = v # split_on (\<lambda>c. c = CHR 0x0A) rest"
  by (rule split_on_sep) (auto simp: word_def list_all_iff)

lemma word_tokens [simp]: "word v \<Longrightarrow> split_on is_blank v = [v]"
  by (rule split_on_none) (auto simp: word_def list_all_iff)

lemma word_nonempty [simp]: "word v \<Longrightarrow> v \<noteq> []"
  by (auto simp: word_def)

lemma of_char_digit: "d < 10 \<Longrightarrow> of_char (digit_char d) = 48 + d"
  by (simp add: digit_char_def)

lemma digit_ok: "d < 10 \<Longrightarrow> \<not> is_blank (digit_char d) \<and> digit_char d \<noteq> CHR 0x0A"
proof -
  assume "d < 10"
  then have "(of_char (digit_char d) :: nat) = 48 + d" by (rule of_char_digit)
  then show ?thesis by (auto simp: is_blank_def)
qed

lemma show_nat_ok: "show_nat n \<noteq> [] \<and> list_all (\<lambda>c. \<not> is_blank c \<and> c \<noteq> CHR 0x0A) (show_nat n)"
proof (induction n rule: show_nat.induct)
  case (1 n)
  show ?case
  proof (cases "n < 10")
    case True
    then show ?thesis using digit_ok [of n] by (subst (1 2) show_nat.simps) simp
  next
    case False
    with 1 digit_ok [of "n mod 10"] show ?thesis
      by (subst (1 2) show_nat.simps) simp
  qed
qed

lemma word_show_int [simp]: "word (show_int i)"
  using show_nat_ok [of "nat i"] show_nat_ok [of "nat (- i)"]
  by (simp add: word_def show_int_def is_blank_def)

lemma tile_directives:
  "directives (tile_section r c ov) =
     [(''NTILEROW'', show_int r), (''NTILECOL'', show_int c), (''ROWOVRLP'', show_int ov),
      (''COLOVRLP'', show_int ov), (''NPROC'', show_int (r * c))]"
  by (simp add: tile_section_def directives_def split_lines_def List.map_filter_def directive_def tokens_def is_blank_def)

lemma base_directives:
  "word i \<Longrightarrow> word out \<Longrightarrow> word cor \<Longrightarrow>
   directives (base_section i w lr la out cor) =
     [(''INFILE'', i), (''INFILEFORMAT'', ''FLOAT_DATA''), (''LINELENGTH'', show_int w),
      (''NLOOKSRANGE'', show_int lr), (''NLOOKSAZ'', show_int la), (''OUTFILE'', out),
      (''OUTFILEFORMAT'', ''FLOAT_DATA''), (''CORRFILE'', cor),
      (''CORRFILEFORMAT'', ''FLOAT_DATA''), (''STATCOSTMODE'', ''DEFO''),
      (''DEFOMAX_CYCLE'', ''4.0''), (''INITMETHOD'', ''MCF''), (''MAXNCOMPS'', ''32'')]"
  by (simp add: base_section_def directives_def split_lines_def List.map_filter_def directive_def
      tokens_def is_blank_def)

section \<open>The configuration generator\<close>

lemma unpack2_eq: "unpack2 xs = (if length xs = 2 then Inr (xs ! 0, xs ! 1) else Inl ValueError)"
  by (cases xs rule: unpack2.cases) auto

lemma config_text_eq:
  "config_text a =
     (if length (shape a) \<le> 1 then Inl IndexError
      else if truthy (tile_shape a) \<and> length (the (tile_shape a)) \<noteq> 2 then Inl ValueError
      else Inr (base_section (in_ifg a) (shape a ! 1) (looks_range a) (looks_az a) (out_file a) (in_cor a)
         @ (if truthy (tile_shape a)
            then tile_section (the (tile_shape a) ! 0) (the (tile_shape a) ! 1) (tile_overlap a) else [])
         @ (if truthy (in_mask a) then mask_section (the (in_mask a)) else [])
         @ (if unwrapped a then unwrap_section else [])))"
proof -
  note fmt = format_base_append [where i = "in_ifg a" and w = "shape a ! 1" and lr = "looks_range a"
        and la = "looks_az a" and out = "out_file a" and cor = "in_cor a"]
      format_base [where i = "in_ifg a" and w = "shape a ! 1" and lr = "looks_range a"
        and la = "looks_az a" and out = "out_file a" and cor = "in_cor a"]
      format_tile_append [where r = "the (tile_shape a) ! 0" and c = "the (tile_shape a) ! 1"
        and ov = "tile_overlap a"]
      format_tile [where r = "the (tile_shape a) ! 0" and c = "the (tile_shape a) ! 1"
        and ov = "tile_overlap a"]
      format_mask_append [where m = "the (in_mask a)"]
      format_mask [where m = "the (in_mask a)"]
      format_unwrap_append format_unwrap
  show ?thesis
    by (simp add: config_text_def subscript_def unpack2_eq fmt)
qed

text \<open>
  C4. The text that \<open>write_snaphu_config\<close> writes is the concatenation, in the order
  base, tiling, masking, pre-unwrapped, of the sections that were requested: the base
  section always, the tiling section when a tile grid shape is supplied, the masking
  section when a mask path is supplied, the pre-unwrapped section when the flag is set;
  a section that is left out leaves nothing in the text. Supplied is what the \<open>if\<close> of the
  script tests: not \<open>None\<close> and not empty. The call succeeds when the raster shape has
  two components and a supplied tile grid shape has exactly two.
\<close>

theorem sections_in_fixed_order:
  assumes "1 < length (shape a)"
    and "truthy (tile_shape a) \<longrightarrow> length (the (tile_shape a)) = 2"
  shows "write_snaphu_config a fs =
     (Inr (out_conf a, out_file a),
      fs\<lparr>texts := (texts fs)(out_conf a \<mapsto>
        base_section (in_ifg a) (shape a ! 1) (looks_range a) (looks_az a) (out_file a) (in_cor a)
        @ (if truthy (tile_shape a)
           then tile_section (the (tile_shape a) ! 0) (the (tile_shape a) ! 1) (tile_overlap a) else [])
        @ (if truthy (in_mask a) then mask_section (the (in_mask a)) else [])
        @ (if unwrapped a then unwrap_section else []))\<rparr>)"
  using assms by (simp add: write_snaphu_config_def config_text_eq)

theorem sections_in_fixed_order_witness:
  "write_snaphu_config example_args empty_fs =
     (Inr (''snaphu.conf'', ''bursts_reunwrapped.bin''),
      empty_fs\<lparr>texts := [''snaphu.conf'' \<mapsto>
        base_section ''bursts_unwrapped.bin'' 2000 20 4 ''bursts_reunwrapped.bin'' ''bursts_correlation.bin''
        @ mask_section ''bursts_mask.bin'' @ unwrap_section]\<rparr>)"
  using sections_in_fixed_order [of example_args empty_fs]
  by (simp add: example_args_def empty_fs_def)

text \<open>
  C5. With no optional feature (no tile grid shape, no mask path, the flag unset) the
  configuration is the base section alone. Its directives are the 13 fixed keywords, in
  this order, with the values of the arguments; \<open>LINELENGTH\<close> is the second component of
  the shape. The reading as directives is for paths that are single tokens.
\<close>

theorem base_only_config:
  assumes "\<not> truthy (tile_shape a)" and "\<not> truthy (in_mask a)" and "\<not> unwrapped a"
    and "1 < length (shape a)"
  shows "write_snaphu_config a fs =
     (Inr (out_conf a, out_file a),
      fs\<lparr>texts := (texts fs)(out_conf a \<mapsto>
        base_section (in_ifg a) (shape a ! 1) (looks_range a) (looks_az a) (out_file a) (in_cor a))\<rparr>)
   \<and> (word (in_ifg a) \<and> word (out_file a) \<and> word (in_cor a) \<longrightarrow>
      directives (base_section (in_ifg a) (shape a ! 1) (looks_range a) (looks_az a) (out_file a) (in_cor a)) =
       [(''INFILE'', in_ifg a), (''INFILEFORMAT'', ''FLOAT_DATA''),
        (''LINELENGTH'', show_int (shape a ! 1)),
        (''NLOOKSRANGE'', show_int (looks_range a)), (''NLOOKSAZ'', show_int (looks_az a)),
        (''OUTFILE'', out_file a), (''OUTFILEFORMAT'', ''FLOAT_DATA''),
        (''CORRFILE'', in_cor a), (''CORRFILEFORMAT'', ''FLOAT_DATA''),
        (''STATCOSTMODE'', ''DEFO''), (''DEFOMAX_CYCLE'', ''4.0''), (''INITMETHOD'', ''MCF''),
        (''MAXNCOMPS'', ''32'')])"
  using assms by (simp add: write_snaphu_config_def config_text_eq base_directives)

theorem base_only_config_witness:
  "write_snaphu_config (example_args\<lparr>in_mask := None, unwrapped := False\<rparr>) empty_fs =
     (Inr (''snaphu.conf'', ''bursts_reunwrapped.bin''),
      empty_fs\<lparr>texts := [''snaphu.conf'' \<mapsto>
        base_section ''bursts_unwrapped.bin'' 2000 20 4 ''bursts_reunwrapped.bin''
          ''bursts_correlation.bin'']\<rparr>)
   \<and> directives (base_section ''bursts_unwrapped.bin'' 2000 20 4 ''bursts_reunwrapped.bin''
          ''bursts_correlation.bin'') =
       [(''INFILE'', ''bursts_unwrapped.bin''), (''INFILEFORMAT'', ''FLOAT_DATA''),
        (''LINELENGTH'', show_int 2000), (''NLOOKSRANGE'', show_int 20), (''NLOOKSAZ'', show_int 4),
        (''OUTFILE'', ''bursts_reunwrapped.bin''), (''OUTFILEFORMAT'', ''FLOAT_DATA''),
        (''CORRFILE'', ''bursts_correlation.bin''), (''CORRFILEFORMAT'', ''FLOAT_DATA''),
        (''STATCOSTMODE'', ''DEFO''), (''DEFOMAX_CYCLE'', ''4.0''), (''INITMETHOD'', ''MCF''),
        (''MAXNCOMPS'', ''32'')]"
proof -
  have w: "word ''bursts_unwrapped.bin''" "word ''bursts_reunwrapped.bin''"
    "word ''bursts_correlation.bin''"
    by (simp_all add: word_def is_blank_def)
  from base_only_config [of "example_args\<lparr>in_mask := None, unwrapped := False\<rparr>" empty_fs] w
  show ?thesis
    by (simp add: example_args_def empty_fs_def)
qed

text \<open>
  C6. With a tile grid shape \<open>(r, c)\<close> the configuration has the tiling section after
  the base section, and that section carries exactly five directives: \<open>NTILEROW\<close> is
  \<open>r\<close>, \<open>NTILECOL\<close> is \<open>c\<close>, \<open>ROWOVRLP\<close> and \<open>COLOVRLP\<close> are both the one overlap
  value, \<open>NPROC\<close> is \<open>r * c\<close>.
\<close>

theorem tiling_directives:
  assumes "tile_shape a = Some [r, c]" and "1 < length (shape a)"
  shows "write_snaphu_config a fs =
     (Inr (out_conf a, out_file a),
      fs\<lparr>texts := (texts fs)(out_conf a \<mapsto>
        base_section (in_ifg a) (shape a ! 1) (looks_range a) (looks_az a) (out_file a) (in_cor a)
        @ tile_section r c (tile_overlap a)
        @ (if truthy (in_mask a) then mask_section (the (in_mask a)) else [])
        @ (if unwrapped a then unwrap_section else []))\<rparr>)
   \<and> directives (tile_section r c (tile_overlap a)) =
       [(''NTILEROW'', show_int r), (''NTILECOL'', show_int c),
        (''ROWOVRLP'', show_int (tile_overlap a)), (''COLOVRLP'', show_int (tile_overlap a)),
        (''NPROC'', show_int (r * c))]"
  using assms by (simp add: write_snaphu_config_def config_text_eq tile_directives)

theorem tiling_directives_witness:
  "write_snaphu_config (example_args\<lparr>tile_shape := Some [3, 3]\<rparr>) empty_fs =
     (Inr (''snaphu.conf'', ''bursts_reunwrapped.bin''),
      empty_fs\<lparr>texts := [''snaphu.conf'' \<mapsto>
        base_section ''bursts_unwrapped.bin'' 2000 20 4 ''bursts_reunwrapped.bin''
          ''bursts_correlation.bin''
        @ tile_section 3 3 600 @ mask_section ''bursts_mask.bin'' @ unwrap_section]\<rparr>)
   \<and> directives (tile_section 3 3 600) =
       [(''NTILEROW'', show_int 3), (''NTILECOL'', show_int 3), (''ROWOVRLP'', show_int 600),
        (''COLOVRLP'', show_int 600), (''NPROC'', show_int 9)]"
  using tiling_directives [of "example_args\<lparr>tile_shape := Some [3, 3]\<rparr>" 3 3 empty_fs]
  by (simp add: example_args_def empty_fs_def)

lemma base_section_head:
  "base_section i w lr la out cor = join_lines
    ['''',
     ''    ######################'',
     ''    # Base Configuration #'',
     ''    ######################'',
     '''',
     ''    # Input file name'',
     ''    INFILE  '' @ i,
     ''    INFILEFORMAT    FLOAT_DATA'',
     join_lines
      ['''',
       ''    # Input file line length'',
       ''    LINELENGTH  '' @ show_int w,
       ''    NLOOKSRANGE '' @ show_int lr,
       ''    NLOOKSAZ    '' @ show_int la,
       '''',
       ''    # Output file'',
       ''    OUTFILE '' @ out,
       ''    OUTFILEFORMAT   FLOAT_DATA'',
       '''',
       ''    # Correlation file'',
       ''    CORRFILE    '' @ cor,
       ''    CORRFILEFORMAT  FLOAT_DATA'',
       '''',
       ''    # Unwrapping Controls'',
       ''    STATCOSTMODE    DEFO'',
       ''    DEFOMAX_CYCLE   4.0'',
       ''    INITMETHOD  MCF'',
       ''    MAXNCOMPS   32'',
       '''',
       ''    '']]"
  by (simp add: base_section_def)

lemma join_lines_last:
  "join_lines [l1, l2, l3, l4, l5, l6, l7, l8, x] @ y = join_lines [l1, l2, l3, l4, l5, l6, l7, l8, x @ y]"
  by simp

text \<open>
  C7. Whatever the value \<open>u\<close> of the \<open>unwrapped\<close> flag, the line after the \<open>INFILE\<close>
  directive of the configuration is \<open>INFILEFORMAT    FLOAT_DATA\<close>.
\<close>

theorem input_format_fixed:
  assumes "1 < length (shape a)"
    and "truthy (tile_shape a) \<longrightarrow> length (the (tile_shape a)) = 2"
  shows "\<exists>rest. write_snaphu_config (a\<lparr>unwrapped := u\<rparr>) fs =
     (Inr (out_conf a, out_file a),
      fs\<lparr>texts := (texts fs)(out_conf a \<mapsto> join_lines
        ['''',
         ''    ######################'',
         ''    # Base Configuration #'',
         ''    ######################'',
         '''',
         ''    # Input file name'',
         ''    INFILE  '' @ in_ifg a,
         ''    INFILEFORMAT    FLOAT_DATA'',
         rest])\<rparr>)"
proof -
  from assms have "write_snaphu_config (a\<lparr>unwrapped := u\<rparr>) fs =
     (Inr (out_conf a, out_file a),
      fs\<lparr>texts := (texts fs)(out_conf a \<mapsto>
        base_section (in_ifg a) (shape a ! 1) (looks_range a) (looks_az a) (out_file a) (in_cor a)
        @ ((if truthy (tile_shape a)
           then tile_section (the (tile_shape a) ! 0) (the (tile_shape a) ! 1) (tile_overlap a) else [])
        @ (if truthy (in_mask a) then mask_section (the (in_mask a)) else [])
        @ (if u then unwrap_section else [])))\<rparr>)"
    by (simp add: write_snaphu_config_def config_text_eq)
  then show ?thesis
    unfolding base_section_head join_lines_last by blast
qed

theorem input_format_fixed_witness:
  "\<exists>rest. write_snaphu_config (example_args\<lparr>unwrapped := False\<rparr>) empty_fs =
     (Inr (''snaphu.conf'', ''bursts_reunwrapped.bin''),
      empty_fs\<lparr>texts := [''snaphu.conf'' \<mapsto> join_lines
        ['''',
         ''    ######################'',
         ''    # Base Configuration #'',
         ''    ######################'',
         '''',
         ''    # Input file name'',
         ''    INFILE  bursts_unwrapped.bin'',
         ''    INFILEFORMAT    FLOAT_DATA'',
         rest]]\<rparr>)"
  using input_format_fixed [of example_args False empty_fs]
  by (simp add: example_args_def empty_fs_def)

text \<open>
  C10. The empty string as mask path and the empty tuple as tile grid shape are treated
  as \<open>None\<close> is: the call does what it does without the argument, the section is left
  out, and with a raster shape of two components the call succeeds.
\<close>

theorem empty_arguments_are_absent:
  "write_snaphu_config (a\<lparr>in_mask := Some ''''\<rparr>) fs = write_snaphu_config (a\<lparr>in_mask := None\<rparr>) fs
   \<and> write_snaphu_config (a\<lparr>tile_shape := Some []\<rparr>) fs
       = write_snaphu_config (a\<lparr>tile_shape := None\<rparr>) fs
   \<and> (1 < length (shape a) \<longrightarrow>
        write_snaphu_config (a\<lparr>tile_shape := Some [], in_mask := Some ''''\<rparr>) fs =
          (Inr (out_conf a, out_file a),
           fs\<lparr>texts := (texts fs)(out_conf a \<mapsto>
             base_section (in_ifg a) (shape a ! 1) (looks_range a) (looks_az a) (out_file a) (in_cor a)
             @ (if unwrapped a then unwrap_section else []))\<rparr>))"
  by (simp add: write_snaphu_config_def config_text_eq)

theorem empty_arguments_are_absent_witness:
  "write_snaphu_config (example_args\<lparr>tile_shape := Some [], in_mask := Some ''''\<rparr>) empty_fs =
     (Inr (''snaphu.conf'', ''bursts_reunwrapped.bin''),
      empty_fs\<lparr>texts := [''snaphu.conf'' \<mapsto>
        base_section ''bursts_unwrapped.bin'' 2000 20 4 ''bursts_reunwrapped.bin''
          ''bursts_correlation.bin''
        @ unwrap_section]\<rparr>)"
  using empty_arguments_are_absent [of example_args empty_fs]
  by (simp add: example_args_def empty_fs_def)

section \<open>Binary to raster and back\<close>







subsection \<open>Where an error of the nodata value leaves the store\<close>

text \<open>
  The nodata value is assigned into the array before the output raster is created, and
  is set on the band after the array is written. An error of the assignment leaves the
  store as it was; an error of \<open>SetNoDataValue\<close> leaves the output raster, written,
  without a nodata value.
\<close>

lemma binary_to_gdal_coerce_error:
  assumes "rasters fs templatepath = Some t"
    and "\<And>py. \<exists>e. coerce lib py (NoDataValue t) = Inl e"
  shows "\<exists>e. binary_to_gdal lib inpath templatepath maskpath outpath fs = (Inl e, fs)"
proof -
  from assms(2) obtain e1 e2 where
    "coerce lib np_float32 (NoDataValue t) = Inl e1" "coerce lib np_byte (NoDataValue t) = Inl e2"
    by blast
  with assms(1) show ?thesis
    by (auto simp: binary_to_gdal_def gdal_Open_def setitem_def Let_def
        split: option.splits sum.splits)
qed

lemma binary_to_gdal_set_nodata_error:
  assumes "rasters fs templatepath = Some t"
    and "DataType t = GDT_Float32 \<and> py = np_float32 \<or> DataType t = GDT_Byte \<and> py = np_byte"
    and "rasters fs maskpath = Some m"
    and "RasterYSize m = RasterYSize t" and "RasterXSize m = RasterXSize t"
    and "binaries fs inpath = Some bs"
    and "length (chunks (itemsize py) bs) = RasterYSize t * RasterXSize t"
    and "coerce lib py (NoDataValue t) = Inr v"
    and "set_nodata lib (NoDataValue t) = Inl e"
  shows "binary_to_gdal lib inpath templatepath maskpath outpath fs =
     (Inl e, fs\<lparr>rasters := (rasters fs)(outpath \<mapsto>
        \<lparr>RasterXSize = RasterXSize t, RasterYSize = RasterYSize t, DataType = DataType t,
         NoDataValue = None, GeoTransform = GeoTransform t, Projection = Projection t,
         band1 = WriteArray lib (DataType t) py
           \<lparr>dims = (RasterYSize t, RasterXSize t),
            items = masked lib (DataType m) (band1 m) v (chunks (itemsize py) bs)\<rparr>\<rparr>)\<rparr>)"
  using assms
  by (elim disjE conjE)
     (simp_all add: binary_to_gdal_def gdal_Open_def fromfile_def reshape_def setitem_def
          eq_zero_def ReadAsArray_def masked_def Let_def)

subsection \<open>The claims\<close>







section \<open>Raster to binary: unsupported pixel types\<close>

text \<open>
  C3. For every requested pixel type other than 32-bit float, 8-bit byte and 32-bit
  complex float, \<open>gdal_to_binary\<close> raises \<open>NotImplementedError\<close> and leaves every file
  as it was: the target file is neither created nor modified.
\<close>

theorem gdal_to_binary_unsupported:
  assumes "dtype \<noteq> GDT_Float32" and "dtype \<noteq> GDT_Byte" and "dtype \<noteq> GDT_CFloat32"
  shows "gdal_to_binary lib inpath outpath dtype fs = (Inl NotImplementedError, fs)"
  using assms by (simp add: gdal_to_binary_def)

theorem gdal_to_binary_unsupported_witness:
  "GDT_Int16 \<noteq> GDT_Float32 \<and> GDT_Int16 \<noteq> GDT_Byte \<and> GDT_Int16 \<noteq> GDT_CFloat32
   \<and> gdal_to_binary example_library ''template.tif'' ''in.bin'' GDT_Int16 example_fs
       = (Inl NotImplementedError, example_fs)
   \<and> binaries example_fs ''in.bin'' = Some [10, 11, 12, 13, 20, 21, 22, 23]"
  using gdal_to_binary_unsupported [of GDT_Int16 example_library "''template.tif''" "''in.bin''" example_fs]
  by (simp add: example_fs_def)

end
